theory Spec2Isabelle
  imports Main
begin

section \<open>Remote (RPC) tasks of \<^verbatim>\<open>core/dbt/task/remote.py\<close>\<close>

text \<open>
  The module defines the RPC handlers of the server. The handlers for ad-hoc statements
  (\<^verbatim>\<open>_RPCExecTask\<close> and its two subclasses) split the request text into macro blocks and
  statement text, build a manifest for the request, run one node on a worker thread and
  wait for it; the \<^verbatim>\<open>cli_args\<close> handler looks a handler class up by its
  \<^verbatim>\<open>METHOD_NAME\<close> and delegates to it.

  Python names that start with an underscore lose it here (\<^verbatim>\<open>_get_exec_node\<close> is
  \<open>get_exec_node\<close>), since an Isabelle name starts with a letter.
\<close>

subsection \<open>Exceptions\<close>

text \<open>
  \<open>exn\<close> stands for the exceptions that the module raises or lets through. All but
  \<^verbatim>\<open>SystemExit\<close> are instances of Python's \<^verbatim>\<open>Exception\<close> class; \<^verbatim>\<open>SystemExit\<close> (with
  its exit code) derives from \<^verbatim>\<open>BaseException\<close> only, so that an \<^verbatim>\<open>except Exception\<close>
  clause does not catch it. \<^verbatim>\<open>KeyboardInterrupt\<close> derives from \<^verbatim>\<open>BaseException\<close> only
  as well, and Python delivers it to the main thread only: it is the \<open>interrupt\<close>
  input of \<open>handle_request\<close> below.
\<close>

datatype signal_name = SIGINT | SIGTERM | SIGHUP

datatype exn =
    RPCKilledException signal_name
  | InternalException string
  | RuntimeError string
  | ValidationError string
  | ExecutionError string
  | SystemExit int

text \<open>Python's \<^verbatim>\<open>isinstance(exc, Exception)\<close>.\<close>

fun is_Exception :: "exn \<Rightarrow> bool" where
  "is_Exception (SystemExit code) = False"
| "is_Exception (RPCKilledException sig) = True"
| "is_Exception (InternalException msg) = True"
| "is_Exception (RuntimeError msg) = True"
| "is_Exception (ValidationError msg) = True"
| "is_Exception (ExecutionError msg) = True"

subsection \<open>Request parameters and top-level blocks\<close>

record RPCExecParameters =
  param_name :: string
  param_sql :: string
  param_macros :: "string option"

record RPCCliParameters =
  param_cli :: string

text \<open>
  A block as \<^verbatim>\<open>extract_toplevel_blocks\<close> returns it; the module reads its
  \<^verbatim>\<open>block_type_name\<close> and its \<^verbatim>\<open>full_block\<close>.
\<close>

record block =
  block_type_name :: string
  full_block :: string

text \<open>Python's \<^verbatim>\<open>sep.join(xs)\<close> on a list of strings.\<close>

fun join :: "string \<Rightarrow> string list \<Rightarrow> string" where
  "join sep [] = []"
| "join sep [x] = x"
| "join sep (x # y # ys) = x @ sep @ join sep (y # ys)"

text \<open>
  The loop of \<^verbatim>\<open>_extract_request_data\<close>: each block is appended to
  \<^verbatim>\<open>macro_blocks\<close> or to \<^verbatim>\<open>data_chunks\<close>.
\<close>

fun split_blocks :: "block list \<Rightarrow> string list \<Rightarrow> string list \<Rightarrow> string list \<times> string list" where
  "split_blocks [] macro_blocks data_chunks = (macro_blocks, data_chunks)"
| "split_blocks (b # bs) macro_blocks data_chunks =
     (if block_type_name b = ''macro''
      then split_blocks bs (macro_blocks @ [full_block b]) data_chunks
      else split_blocks bs macro_blocks (data_chunks @ [full_block b]))"

text \<open>
  \<^verbatim>\<open>decode_sql\<close> (a method of the base class) and \<^verbatim>\<open>extract_toplevel_blocks\<close>
  (of \<^verbatim>\<open>dbt.clients.jinja\<close>) are not part of the module: they are parameters, and
  either may raise. The result is the pair \<^verbatim>\<open>(sql, macros)\<close>.
\<close>

definition extract_request_data ::
  "(string \<Rightarrow> exn + string) \<Rightarrow> (string \<Rightarrow> exn + block list) \<Rightarrow> string \<Rightarrow> exn + string \<times> string" where
  "extract_request_data decode_sql extract_toplevel_blocks data =
     (case decode_sql data of
        Inl e \<Rightarrow> Inl e
      | Inr decoded \<Rightarrow>
          (case extract_toplevel_blocks decoded of
             Inl e \<Rightarrow> Inl e
           | Inr blocks \<Rightarrow>
               (case split_blocks blocks [] [] of
                  (macro_blocks, data_chunks) \<Rightarrow>
                    Inr (join [] data_chunks, join [CHR 0x0A] macro_blocks))))"

subsection \<open>Manifests and the store of macro collections\<close>

text \<open>
  A parsed macro and the node of an ad-hoc statement, with the attributes the module
  reads (\<^verbatim>\<open>unique_id\<close>); their other attributes belong to the parsers.
\<close>

record macro =
  macro_unique_id :: string
  macro_sql :: string

record rpc_node =
  unique_id :: string
  node_name :: string
  raw_sql :: string

text \<open>
  The \<^verbatim>\<open>macros\<close> attribute of a manifest is a Python dict, an object that
  \<^verbatim>\<open>_get_exec_node\<close> updates in place. The store holds these dicts; a manifest refers
  to its dict by its address, an index into the store. A reference of the program
  always points to an object, so the address of a manifest in use is below the length
  of the store.
\<close>

type_synonym macro_dict = "string \<rightharpoonup> macro"

type_synonym addr = nat

type_synonym store = "macro_dict list"

record manifest =
  nodes :: "string \<rightharpoonup> rpc_node"
  macros :: addr

text \<open>What a collaborator reads of a manifest: its nodes and the content of its dict.\<close>

record manifest_view =
  view_nodes :: "string \<rightharpoonup> rpc_node"
  view_macros :: macro_dict

definition view :: "store \<Rightarrow> manifest \<Rightarrow> manifest_view" where
  "view s m = \<lparr>view_nodes = nodes m, view_macros = s ! macros m\<rparr>"

subsection \<open>Runners, adapters and the other collaborators\<close>

datatype runner_cls = RPCCompileRunner | RPCExecuteRunner

record runner =
  runner_type :: runner_cls
  runner_node :: rpc_node

record run_result =
  result_unique_id :: string
  result_payload :: string

text \<open>
  What \<^verbatim>\<open>runner.safe_run\<close> does: it returns a result, raises, or never returns
  (a backend call that blocks).
\<close>

datatype run_outcome = Returns run_result | Raises exn | Blocks

text \<open>The adapter, by what its three methods return.\<close>

record adapter =
  is_cancelable :: bool
  cancel_open_connections :: "string list"
  adapter_type :: string

type_synonym linker = "string list"

text \<open>
  The functions the module imports or inherits and calls. The parsers, the reference
  resolution, the compilation and \<^verbatim>\<open>get_runner\<close> may raise. \<open>safe_run\<close> is told
  whether the adapter's connections have been cancelled, since that is how a blocked
  backend call is made to fail.
\<close>

record collaborators =
  decode_sql :: "string \<Rightarrow> exn + string"
  extract_toplevel_blocks :: "string \<Rightarrow> exn + block list"
  macro_parse_remote :: "string \<Rightarrow> exn + macro list"
  call_parse_remote :: "manifest_view \<Rightarrow> string \<Rightarrow> string \<Rightarrow> exn + rpc_node"
  resolve_refs :: "manifest_view \<Rightarrow> rpc_node \<Rightarrow> exn option"
  compile_manifest :: "manifest_view \<Rightarrow> exn + linker"
  get_runner :: "runner_cls \<Rightarrow> rpc_node \<Rightarrow> exn + runner"
  safe_run :: "bool \<Rightarrow> runner \<Rightarrow> manifest_view \<Rightarrow> run_outcome"
  get_adapter :: adapter

subsection \<open>The handler of an ad-hoc statement\<close>

text \<open>The two concrete subclasses of \<^verbatim>\<open>_RPCExecTask\<close>.\<close>

datatype exec_cls = RemoteCompileTask | RemoteRunTask

fun get_runner_type :: "exec_cls \<Rightarrow> runner_cls" where
  "get_runner_type RemoteCompileTask = RPCCompileRunner"
| "get_runner_type RemoteRunTask = RPCExecuteRunner"

record exec_args =
  args_name :: string
  args_sql :: string
  args_macros :: "string option"

record task =
  args :: exec_args
  base_manifest :: manifest
  manifest :: manifest
  linker :: "linker option"
  run_count :: nat
  num_nodes :: nat
  node_results :: "run_result list"
  skipped_children :: "(string \<times> string) list"
  raise_next_tick :: "exn option"

definition set_args :: "RPCExecParameters \<Rightarrow> task \<Rightarrow> task" where
  "set_args params self =
     self\<lparr>args := (args self)\<lparr>args_name := param_name params,
                                args_sql := param_sql params,
                                args_macros := param_macros params\<rparr>\<rparr>"

definition runtime_cleanup :: "string list \<Rightarrow> task \<Rightarrow> task" where
  "runtime_cleanup selected_uids self =
     self\<lparr>run_count := 0,
          num_nodes := length selected_uids,
          node_results := [],
          skipped_children := [],
          raise_next_tick := None\<rparr>"

text \<open>
  The loop \<^verbatim>\<open>macro_overrides[node.unique_id] = node\<close> over the parsed macros, and the
  guard \<^verbatim>\<open>if macros:\<close> around it.
\<close>

fun collect_overrides :: "macro list \<Rightarrow> macro_dict \<Rightarrow> macro_dict" where
  "collect_overrides [] macro_overrides = macro_overrides"
| "collect_overrides (n # ns) macro_overrides =
     collect_overrides ns (macro_overrides(macro_unique_id n \<mapsto> n))"

definition parse_macro_overrides :: "collaborators \<Rightarrow> string \<Rightarrow> exn + macro_dict" where
  "parse_macro_overrides env macros_text =
     (if macros_text \<noteq> []
      then (case macro_parse_remote env macros_text of
              Inl e \<Rightarrow> Inl e
            | Inr parsed \<Rightarrow> Inr (collect_overrides parsed Map.empty))
      else Inr Map.empty)"

text \<open>
  Modelled from the spec: \<^verbatim>\<open>ParserUtils.add_new_refs\<close> is not among the sources. The
  specification has it merge the ad-hoc node into a request-scoped copy of the baseline
  graph, resolving the node's upstream references against that graph, and fail with a
  resolution error on an unknown reference. The copy gets a dict of its own, at a fresh
  address, holding the base manifest's macros and the overrides.
\<close>

definition add_new_refs ::
  "(manifest_view \<Rightarrow> rpc_node \<Rightarrow> exn option) \<Rightarrow> store \<Rightarrow> manifest \<Rightarrow> rpc_node \<Rightarrow> macro_dict
     \<Rightarrow> exn + store \<times> manifest" where
  "add_new_refs resolve s m node overrides =
     (let copied = (s ! macros m) ++ overrides;
          merged = (nodes m)(unique_id node \<mapsto> node)
      in case resolve \<lparr>view_nodes = merged, view_macros = copied\<rparr> node of
           Some e \<Rightarrow> Inl e
         | None \<Rightarrow> Inr (s @ [copied], \<lparr>nodes = merged, macros = length s\<rparr>))"

text \<open>
  \<^verbatim>\<open>_get_exec_node\<close>. The result carries the store and the handler as the call leaves
  them, also when it raises: what was written before the failure stays written. The
  value read from \<^verbatim>\<open>self.args.macros\<close> is bound first and rebound by the next line,
  as in the source.
\<close>

definition get_exec_node :: "collaborators \<Rightarrow> store \<Rightarrow> task \<Rightarrow> (exn + rpc_node) \<times> store \<times> task" where
  "get_exec_node env s self =
     (let macros_text = args_macros (args self) in
      case extract_request_data (decode_sql env) (extract_toplevel_blocks env) (args_sql (args self)) of
        Inl e \<Rightarrow> (Inl e, s, self)
      | Inr (sql, macros_text) \<Rightarrow>
          (case parse_macro_overrides env macros_text of
             Inl e \<Rightarrow> (Inl e, s, self)
           | Inr macro_overrides \<Rightarrow>
               (let base = base_manifest self;
                    s1 = s[macros base := (s ! macros base) ++ macro_overrides]
                in case call_parse_remote env (view s1 base) sql (args_name (args self)) of
                     Inl e \<Rightarrow> (Inl e, s1, self)
                   | Inr node \<Rightarrow>
                       (case add_new_refs (resolve_refs env) s1 base node macro_overrides of
                          Inl e \<Rightarrow> (Inl e, s1, self)
                        | Inr (s2, m) \<Rightarrow>
                            (case compile_manifest env (view s2 m) of
                               Inl e \<Rightarrow> (Inl e, s2, self\<lparr>manifest := m\<rparr>)
                             | Inr l \<Rightarrow> (Inr node, s2, self\<lparr>manifest := m, linker := Some l\<rparr>))))))"

definition raise_set_error :: "task \<Rightarrow> exn + unit" where
  "raise_set_error self = (case raise_next_tick self of Some e \<Rightarrow> Inl e | None \<Rightarrow> Inr ())"

text \<open>
  What the two threads do, in the order they do it: starting the worker thread, the
  worker's debug line for a caught exception, the worker setting \<^verbatim>\<open>thread_done\<close>,
  the adapter cancelling its connections, the debug line for each cancelled connection,
  the call of \<^verbatim>\<open>thread.join()\<close>, and the debug line about an adapter that cannot
  cancel (with the adapter's type).
\<close>

datatype event =
    ThreadStart
  | LogGotException exn
  | ThreadDoneSet
  | CancelOpenConnections
  | LogCanceledQuery string
  | ThreadJoin
  | LogNoCancel string

text \<open>
  \<^verbatim>\<open>_in_thread\<close>, the body of the worker thread. \<open>None\<close> means that the worker never
  leaves \<^verbatim>\<open>safe_run\<close>, so that the thread never ends and \<^verbatim>\<open>thread_done\<close> is never
  set. Otherwise the result holds the worker's events, the handler as the worker
  leaves it, and the exception that leaves the thread uncaught, if there is one.
  \<^verbatim>\<open>get_runner\<close> is called before the \<^verbatim>\<open>try\<close>: what it raises leaves the thread
  with nothing logged, stored or set. The \<^verbatim>\<open>except Exception\<close> clause catches the
  instances of \<^verbatim>\<open>Exception\<close> only, and the \<^verbatim>\<open>finally\<close> clause sets \<^verbatim>\<open>thread_done\<close>
  whenever \<^verbatim>\<open>safe_run\<close> returns or raises.
\<close>

definition in_thread ::
  "collaborators \<Rightarrow> exec_cls \<Rightarrow> bool \<Rightarrow> store \<Rightarrow> rpc_node \<Rightarrow> task
     \<Rightarrow> (event list \<times> task \<times> exn option) option" where
  "in_thread env cls cancelled s node self =
     (case get_runner env (get_runner_type cls) node of
        Inl exc \<Rightarrow> Some ([], self, Some exc)
      | Inr runner \<Rightarrow>
          (case safe_run env cancelled runner (view s (manifest self)) of
             Returns r \<Rightarrow>
               Some ([ThreadDoneSet], self\<lparr>node_results := node_results self @ [r]\<rparr>, None)
           | Raises exc \<Rightarrow>
               (if is_Exception exc
                then Some ([LogGotException exc, ThreadDoneSet],
                           self\<lparr>raise_next_tick := Some exc\<rparr>, None)
                else Some ([ThreadDoneSet], self, Some exc))
           | Blocks \<Rightarrow> None))"

text \<open>
  Modelled from the spec: \<^verbatim>\<open>get_result\<close> is not among the sources. The specification's
  envelope holds the results, the elapsed time and the time of completion. Times are in
  microseconds, the unit of Python's \<^verbatim>\<open>timedelta\<close>.
\<close>

record remote_result =
  results :: "run_result list"
  elapsed_time :: int
  generated_at :: int

definition get_result :: "run_result list \<Rightarrow> int \<Rightarrow> int \<Rightarrow> remote_result" where
  "get_result rs elapsed ended = \<lparr>results = rs, elapsed_time = elapsed, generated_at = ended\<rparr>"

text \<open>
  Where a \<^verbatim>\<open>KeyboardInterrupt\<close> reaches the \<^verbatim>\<open>try\<close> block of \<^verbatim>\<open>handle_request\<close>:
  not at all; while the context is prepared (\<^verbatim>\<open>thread\<close> is still \<^verbatim>\<open>None\<close>); after
  the thread object is created and before it is started; or while the coordinating
  thread waits for the started worker. \<open>thread_var\<close> is the value of \<^verbatim>\<open>thread\<close>
  at that moment.
\<close>

datatype interrupt = NoInterrupt | InterruptPreparing | InterruptUnstarted | InterruptRunning

datatype thread_var = NoThread | Unstarted | Started

text \<open>
  What a call of \<^verbatim>\<open>handle_request\<close> amounts to: the response (\<open>None\<close> when the call
  never returns, \<open>Inl\<close> the exception it raises), the events up to its return, and the
  store and the handler as it leaves them.
\<close>

record outcome =
  response :: "(exn + remote_result) option"
  events :: "event list"
  final_store :: store
  final_task :: task

text \<open>
  The \<^verbatim>\<open>except KeyboardInterrupt\<close> clause. \<open>worker\<close> is what the started worker does
  until it ends (see \<open>in_thread\<close>); only \<^verbatim>\<open>thread.join()\<close> waits for it, and it
  returns when the thread has ended, with or without an uncaught exception. Joining a
  thread that was never started raises \<^verbatim>\<open>RuntimeError\<close> in Python.
\<close>

definition except_KeyboardInterrupt ::
  "adapter \<Rightarrow> thread_var \<Rightarrow> (event list \<times> task \<times> exn option) option \<Rightarrow> event list \<Rightarrow> store \<Rightarrow> task
     \<Rightarrow> outcome" where
  "except_KeyboardInterrupt adapter thread worker evs s self =
     (if is_cancelable adapter
      then (let evs1 = evs @ CancelOpenConnections # map LogCanceledQuery (cancel_open_connections adapter)
            in case thread of
                 NoThread \<Rightarrow>
                   \<lparr>response = Some (Inl (RPCKilledException SIGINT)), events = evs1,
                    final_store = s, final_task = self\<rparr>
               | Unstarted \<Rightarrow>
                   \<lparr>response = Some (Inl (RuntimeError ''cannot join thread before it is started'')),
                    events = evs1 @ [ThreadJoin], final_store = s, final_task = self\<rparr>
               | Started \<Rightarrow>
                   (case worker of
                      None \<Rightarrow>
                        \<lparr>response = None, events = evs1 @ [ThreadJoin],
                         final_store = s, final_task = self\<rparr>
                    | Some (worker_evs, self', escaped) \<Rightarrow>
                        \<lparr>response = Some (Inl (RPCKilledException SIGINT)),
                         events = evs1 @ ThreadJoin # worker_evs,
                         final_store = s, final_task = self'\<rparr>))
      else \<lparr>response = Some (Inl (RPCKilledException SIGINT)),
            events = evs @ [LogNoCancel (adapter_type adapter)],
            final_store = s, final_task = self\<rparr>)"

text \<open>
  \<^verbatim>\<open>_RPCExecTask.handle_request\<close>, with the two readings of the clock
  (\<open>started\<close>, \<open>ended\<close>) as parameters. An interrupt while the context is prepared is
  taken at the start of the \<^verbatim>\<open>try\<close> block. \<^verbatim>\<open>thread_done.wait()\<close> returns once the
  worker has set \<^verbatim>\<open>thread_done\<close>; when the worker never sets it, the call never
  returns.
\<close>

definition handle_request ::
  "collaborators \<Rightarrow> exec_cls \<Rightarrow> int \<Rightarrow> int \<Rightarrow> interrupt \<Rightarrow> store \<Rightarrow> task \<Rightarrow> outcome" where
  "handle_request env cls started ended intr s self =
     (if intr = InterruptPreparing
      then except_KeyboardInterrupt (get_adapter env) NoThread None [] s self
      else case get_exec_node env s self of
             (Inl e, s1, self1) \<Rightarrow>
               \<lparr>response = Some (Inl e), events = [], final_store = s1, final_task = self1\<rparr>
           | (Inr node, s1, self1) \<Rightarrow>
               (let self2 = runtime_cleanup [unique_id node] self1
                in if intr = InterruptUnstarted
                   then except_KeyboardInterrupt (get_adapter env) Unstarted None [] s1 self2
                   else if intr = InterruptRunning
                   then except_KeyboardInterrupt (get_adapter env) Started
                          (in_thread env cls True s1 node self2) [ThreadStart] s1 self2
                   else (case in_thread env cls False s1 node self2 of
                           None \<Rightarrow>
                             \<lparr>response = None, events = [ThreadStart],
                              final_store = s1, final_task = self2\<rparr>
                         | Some (worker_evs, self3, escaped) \<Rightarrow>
                             (if ThreadDoneSet \<notin> set worker_evs
                              then \<lparr>response = None, events = ThreadStart # worker_evs,
                                    final_store = s1, final_task = self3\<rparr>
                              else case raise_set_error self3 of
                                     Inl e \<Rightarrow>
                                       \<lparr>response = Some (Inl e), events = ThreadStart # worker_evs,
                                        final_store = s1, final_task = self3\<rparr>
                                   | Inr _ \<Rightarrow>
                                       \<lparr>response = Some (Inr (get_result (node_results self3)
                                                               (ended - started) ended)),
                                        events = ThreadStart # worker_evs,
                                        final_store = s1, final_task = self3\<rparr>))))"

subsection \<open>The registry of handler classes and the \<^verbatim>\<open>cli_args\<close> handler\<close>

text \<open>
  The handler classes of the module that declare a \<^verbatim>\<open>METHOD_NAME\<close>, and
  \<open>OtherTask\<close> for a subclass of \<^verbatim>\<open>RPCTask\<close> that the module does not declare one
  for (with its \<^verbatim>\<open>METHOD_NAME\<close>, \<open>None\<close> when the class has none of its own).
\<close>

datatype handler_cls =
    ExecTask exec_cls
  | RemoteCompileProjectTask
  | RemoteRunProjectTask
  | RemoteSeedProjectTask
  | RemoteTestProjectTask
  | RemoteDocsGenerateProjectTask
  | RemoteRPCParameters
  | OtherTask "string option"

fun METHOD_NAME :: "handler_cls \<Rightarrow> string option" where
  "METHOD_NAME (ExecTask RemoteCompileTask) = Some ''compile_sql''"
| "METHOD_NAME (ExecTask RemoteRunTask) = Some ''run_sql''"
| "METHOD_NAME RemoteCompileProjectTask = Some ''compile''"
| "METHOD_NAME RemoteRunProjectTask = Some ''run''"
| "METHOD_NAME RemoteSeedProjectTask = Some ''seed''"
| "METHOD_NAME RemoteTestProjectTask = Some ''test''"
| "METHOD_NAME RemoteDocsGenerateProjectTask = Some ''docs.generate''"
| "METHOD_NAME RemoteRPCParameters = Some ''cli_args''"
| "METHOD_NAME (OtherTask name) = name"

text \<open>
  The namespace that \<^verbatim>\<open>parse_args\<close> returns, with the attributes the module reads
  (\<^verbatim>\<open>rpc_method\<close>, \<^verbatim>\<open>which\<close>) and the two selection lists of a project command.
\<close>

record parsed_args =
  rpc_method :: "string option"
  which :: "string option"
  models :: "string list option"
  exclude :: "string list option"

text \<open>Python's \<^verbatim>\<open>str.format\<close> on an optional string prints \<^verbatim>\<open>None\<close> as a word.\<close>

fun format_opt :: "string option \<Rightarrow> string" where
  "format_opt None = ''None''"
| "format_opt (Some s) = s"

text \<open>
  \<^verbatim>\<open>RemoteRPCParameters.set_args\<close>: \<^verbatim>\<open>shlex.split\<close> and \<^verbatim>\<open>parse_args\<close> (applied to
  \<^verbatim>\<open>RPCArgumentParser\<close>) are parameters, and either may raise. The result is the new
  value of \<^verbatim>\<open>self.args\<close>.
\<close>

definition cli_set_args ::
  "(string \<Rightarrow> exn + string list) \<Rightarrow> (string list \<Rightarrow> exn + parsed_args) \<Rightarrow> RPCCliParameters
     \<Rightarrow> exn + parsed_args" where
  "cli_set_args shlex_split parse_args params =
     (case shlex_split (param_cli params) of
        Inl e \<Rightarrow> Inl e
      | Inr split \<Rightarrow> parse_args split)"

text \<open>
  The loop of \<^verbatim>\<open>get_rpc_task_cls\<close> over \<^verbatim>\<open>RPCTask.recursive_subclasses()\<close>, which is
  a parameter (the list of candidates, in the order the method yields them).
\<close>

fun find_candidate :: "handler_cls list \<Rightarrow> string option \<Rightarrow> handler_cls option" where
  "find_candidate [] name = None"
| "find_candidate (candidate # rest) name =
     (if METHOD_NAME candidate = name then Some candidate else find_candidate rest name)"

definition get_rpc_task_cls :: "handler_cls list \<Rightarrow> parsed_args \<Rightarrow> exn + handler_cls" where
  "get_rpc_task_cls recursive_subclasses parsed =
     (case find_candidate recursive_subclasses (rpc_method parsed) of
        Some candidate \<Rightarrow> Inr candidate
      | None \<Rightarrow>
          Inl (InternalException
                 (''No matching handler found for rpc method '' @ format_opt (rpc_method parsed)
                    @ '' (which='' @ format_opt (which parsed) @ '')'')))"

text \<open>
  \<^verbatim>\<open>RemoteRPCParameters.handle_request\<close>. \<open>construct_and_handle cls parsed config m\<close>
  stands for \<^verbatim>\<open>cls(self.args, self.config, self.manifest).handle_request()\<close>, with
  \<open>parsed\<close> the value of \<^verbatim>\<open>self.args\<close> that \<^verbatim>\<open>set_args\<close> left.
\<close>

definition cli_handle_request ::
  "handler_cls list \<Rightarrow> (handler_cls \<Rightarrow> parsed_args \<Rightarrow> 'c \<Rightarrow> 'm \<Rightarrow> exn + 'r) \<Rightarrow> parsed_args \<Rightarrow> 'c \<Rightarrow> 'm
     \<Rightarrow> exn + 'r" where
  "cli_handle_request recursive_subclasses construct_and_handle parsed config m =
     (case get_rpc_task_cls recursive_subclasses parsed of
        Inl e \<Rightarrow> Inl e
      | Inr cls \<Rightarrow> construct_and_handle cls parsed config m)"

subsection \<open>Example collaborators and requests\<close>

text \<open>
  Small concrete collaborators, used to run the definitions above on concrete requests.
  The example decoder returns its input, the example block extractor knows one text with
  two macro blocks between statement text, and the example parsers build one macro or
  one node from the text they are given.
\<close>

definition example_sql :: string where
  "example_sql = ''{% macro a() %}1{% endmacro %}select {% macro b() %}2{% endmacro %}{{ a() }}''"

definition example_blocks :: "block list" where
  "example_blocks =
     [\<lparr>block_type_name = ''macro'', full_block = ''{% macro a() %}1{% endmacro %}''\<rparr>,
      \<lparr>block_type_name = ''__dbt__data'', full_block = ''select ''\<rparr>,
      \<lparr>block_type_name = ''macro'', full_block = ''{% macro b() %}2{% endmacro %}''\<rparr>,
      \<lparr>block_type_name = ''__dbt__data'', full_block = ''{{ a() }}''\<rparr>]"

definition example_extract_toplevel_blocks :: "string \<Rightarrow> exn + block list" where
  "example_extract_toplevel_blocks text =
     (if text = example_sql then Inr example_blocks
      else Inr [\<lparr>block_type_name = ''__dbt__data'', full_block = text\<rparr>])"

definition example_adapter :: adapter where
  "example_adapter =
     \<lparr>is_cancelable = True, cancel_open_connections = [''master''], adapter_type = ''postgres''\<rparr>"

definition example_env :: collaborators where
  "example_env =
     \<lparr>decode_sql = Inr,
      extract_toplevel_blocks = example_extract_toplevel_blocks,
      macro_parse_remote = (\<lambda>text. Inr [\<lparr>macro_unique_id = ''macro.rpc.a'', macro_sql = text\<rparr>]),
      call_parse_remote =
        (\<lambda>v sql name. Inr \<lparr>unique_id = ''rpc.'' @ name, node_name = name, raw_sql = sql\<rparr>),
      resolve_refs = (\<lambda>v node. None),
      compile_manifest = (\<lambda>v. Inr []),
      get_runner = (\<lambda>rc node. Inr \<lparr>runner_type = rc, runner_node = node\<rparr>),
      safe_run =
        (\<lambda>cancelled r v.
           Returns \<lparr>result_unique_id = unique_id (runner_node r),
                    result_payload = raw_sql (runner_node r)\<rparr>),
      get_adapter = example_adapter\<rparr>"

definition example_store :: store where
  "example_store = [Map.empty]"

definition example_task :: task where
  "example_task =
     \<lparr>args = \<lparr>args_name = ''q1'', args_sql = example_sql, args_macros = None\<rparr>,
      base_manifest = \<lparr>nodes = Map.empty, macros = 0\<rparr>,
      manifest = \<lparr>nodes = Map.empty, macros = 0\<rparr>,
      linker = None,
      run_count = 0,
      num_nodes = 0,
      node_results = [],
      skipped_children = [],
      raise_next_tick = None\<rparr>"

text \<open>
  What the example request leaves behind: the macros parsed from its two macro blocks
  and the node parsed from its statement text.
\<close>

definition example_macros_text :: string where
  "example_macros_text =
     ''{% macro a() %}1{% endmacro %}'' @ [CHR 0x0A] @ ''{% macro b() %}2{% endmacro %}''"

definition example_macros :: macro_dict where
  "example_macros =
     [''macro.rpc.a'' \<mapsto> \<lparr>macro_unique_id = ''macro.rpc.a'', macro_sql = example_macros_text\<rparr>]"

definition example_node :: rpc_node where
  "example_node = \<lparr>unique_id = ''rpc.q1'', node_name = ''q1'', raw_sql = ''select {{ a() }}''\<rparr>"

definition example_result :: run_result where
  "example_result = \<lparr>result_unique_id = ''rpc.q1'', result_payload = ''select {{ a() }}''\<rparr>"

definition example_task_after :: task where
  "example_task_after =
     example_task\<lparr>manifest := \<lparr>nodes = [''rpc.q1'' \<mapsto> example_node], macros = 1\<rparr>,
                   linker := Some []\<rparr>"

text \<open>
  A text with three macro blocks, two of them after statement text, and an extractor
  that knows it.
\<close>

definition three_macro_sql :: string where
  "three_macro_sql =
     ''{% macro a() %}1{% endmacro %}select {% macro b() %}2{% endmacro %}1{% macro c() %}3{% endmacro %}''"

definition three_macro_blocks :: "block list" where
  "three_macro_blocks =
     [\<lparr>block_type_name = ''macro'', full_block = ''{% macro a() %}1{% endmacro %}''\<rparr>,
      \<lparr>block_type_name = ''__dbt__data'', full_block = ''select ''\<rparr>,
      \<lparr>block_type_name = ''macro'', full_block = ''{% macro b() %}2{% endmacro %}''\<rparr>,
      \<lparr>block_type_name = ''__dbt__data'', full_block = ''1''\<rparr>,
      \<lparr>block_type_name = ''macro'', full_block = ''{% macro c() %}3{% endmacro %}''\<rparr>]"

definition three_macro_env :: collaborators where
  "three_macro_env =
     example_env\<lparr>extract_toplevel_blocks :=
       (\<lambda>text. if text = three_macro_sql then Inr three_macro_blocks
               else Inl (ValidationError ''unexpected end of template''))\<rparr>"

text \<open>A second request for the same handler, with no macro block in its text.\<close>

definition plain_task :: task where
  "plain_task =
     example_task\<lparr>args := \<lparr>args_name = ''q2'', args_sql = ''select 1'', args_macros = None\<rparr>\<rparr>"

text \<open>
  The subclasses that the module itself declares with a \<^verbatim>\<open>METHOD_NAME\<close>, and an
  example command line with the namespace it is taken to parse to.
\<close>

definition module_subclasses :: "handler_cls list" where
  "module_subclasses =
     [ExecTask RemoteCompileTask, ExecTask RemoteRunTask, RemoteCompileProjectTask,
      RemoteRunProjectTask, RemoteSeedProjectTask, RemoteTestProjectTask,
      RemoteDocsGenerateProjectTask, RemoteRPCParameters]"

definition example_shlex_split :: "string \<Rightarrow> exn + string list" where
  "example_shlex_split cli =
     (if cli = ''run --models my_model'' then Inr [''run'', ''--models'', ''my_model'']
      else Inl (ValidationError ''No closing quotation''))"

definition example_parse_args :: "string list \<Rightarrow> exn + parsed_args" where
  "example_parse_args split =
     (if split = [''run'', ''--models'', ''my_model'']
      then Inr \<lparr>rpc_method = Some ''run'', which = Some ''run'',
                models = Some [''my_model''], exclude = None\<rparr>
      else Inl (ValidationError ''unrecognized arguments''))"

text \<open>
  Variants of the example collaborators: a backend call that blocks until the
  connections are cancelled and fails then; an adapter that cannot cancel, with a
  backend call that never returns; a runner that raises an execution error; a runner
  that raises \<^verbatim>\<open>SystemExit\<close>; a \<^verbatim>\<open>get_runner\<close> that raises; and a reference that does
  not resolve.
\<close>

definition blocking_env :: collaborators where
  "blocking_env =
     example_env\<lparr>safe_run :=
       (\<lambda>cancelled r v. if cancelled then Raises (ExecutionError ''canceling statement'') else Blocks)\<rparr>"

definition uncancelable_env :: collaborators where
  "uncancelable_env =
     example_env\<lparr>safe_run := (\<lambda>cancelled r v. Blocks),
                  get_adapter := \<lparr>is_cancelable = False, cancel_open_connections = [],
                                  adapter_type = ''bigquery''\<rparr>\<rparr>"

definition raising_env :: collaborators where
  "raising_env =
     example_env\<lparr>safe_run := (\<lambda>cancelled r v. Raises (ExecutionError ''division by zero''))\<rparr>"

definition exiting_env :: collaborators where
  "exiting_env = example_env\<lparr>safe_run := (\<lambda>cancelled r v. Raises (SystemExit 1))\<rparr>"

definition no_runner_env :: collaborators where
  "no_runner_env =
     example_env\<lparr>get_runner := (\<lambda>rc node. Inl (RuntimeError ''no adapter for this profile''))\<rparr>"

definition unresolved_env :: collaborators where
  "unresolved_env =
     example_env\<lparr>resolve_refs :=
       (\<lambda>v node. Some (ValidationError ''depends on a node which was not found''))\<rparr>"

section \<open>Properties\<close>

subsection \<open>The fragment splitter\<close>

lemma split_blocks_acc:
  "split_blocks bs mb dc =
     (mb @ map full_block (filter (\<lambda>b. block_type_name b = ''macro'') bs),
      dc @ map full_block (filter (\<lambda>b. block_type_name b \<noteq> ''macro'') bs))"
  by (induction bs arbitrary: mb dc) simp_all

lemma join_no_separator: "join [] xs = concat xs"
  by (induction "[] :: string" xs rule: join.induct) simp_all

lemma join_separates: "join sep (x # xs) = x @ concat (map (\<lambda>y. sep @ y) xs)"
  by (induction xs arbitrary: x) simp_all

text \<open>
  C5: when the request text decodes and its top-level blocks are extracted, the statement
  text that \<^verbatim>\<open>_extract_request_data\<close> returns is the concatenation, in source order
  and with no separator, of the full text of the blocks that are not macro blocks, and
  the macros text is the full text of the macro blocks in source order with one newline
  between each two of them: the first macro block, then every further macro block with
  a newline before it. With no macro block the macros text is the empty string.
\<close>

theorem extract_request_data_partition:
  assumes "decode_sql env data = Inr text"
      and "extract_toplevel_blocks env text = Inr bs"
  shows "extract_request_data (decode_sql env) (extract_toplevel_blocks env) data =
           Inr (concat (map full_block (filter (\<lambda>b. block_type_name b \<noteq> ''macro'') bs)),
                (case map full_block (filter (\<lambda>b. block_type_name b = ''macro'') bs) of
                   [] \<Rightarrow> []
                 | first_macro # more_macros \<Rightarrow>
                     first_macro @ concat (map (\<lambda>m. CHR 0x0A # m) more_macros)))
         \<and> (filter (\<lambda>b. block_type_name b = ''macro'') bs = [] \<longrightarrow>
              map_sum id snd (extract_request_data (decode_sql env) (extract_toplevel_blocks env) data)
                = Inr [])"
  using assms
  by (simp add: extract_request_data_def split_blocks_acc join_no_separator join_separates
           split: list.split)

theorem extract_request_data_partition_witness:
  "extract_request_data (decode_sql three_macro_env) (extract_toplevel_blocks three_macro_env)
       three_macro_sql =
     Inr (''select 1'',
          ''{% macro a() %}1{% endmacro %}'' @ [CHR 0x0A] @ ''{% macro b() %}2{% endmacro %}''
            @ [CHR 0x0A] @ ''{% macro c() %}3{% endmacro %}'')
   \<and> extract_request_data (decode_sql example_env) (extract_toplevel_blocks example_env) ''select 1''
       = Inr (''select 1'', [])"
proof -
  have a: "extract_toplevel_blocks three_macro_env three_macro_sql = Inr three_macro_blocks"
    by (simp add: three_macro_env_def)
  have b: "extract_toplevel_blocks example_env ''select 1''
             = Inr [\<lparr>block_type_name = ''__dbt__data'', full_block = ''select 1''\<rparr>]"
    by (simp add: example_env_def example_extract_toplevel_blocks_def example_sql_def)
  have c: "decode_sql example_env x = Inr x" for x
    by (simp add: example_env_def)
  have d: "decode_sql three_macro_env x = Inr x" for x
    by (simp add: three_macro_env_def example_env_def)
  show ?thesis
    using extract_request_data_partition [OF d a] extract_request_data_partition [OF c b]
    by (simp add: three_macro_blocks_def)
qed

subsection \<open>The example request, evaluated\<close>

lemma map_add_twice: "m ++ n ++ n = m ++ n"
  by (rule ext) (simp add: map_add_def split: option.split)

lemma example_split:
  "extract_request_data Inr example_extract_toplevel_blocks example_sql =
     Inr (''select {{ a() }}'', example_macros_text)"
  by (simp add: extract_request_data_def example_extract_toplevel_blocks_def
        example_blocks_def example_macros_text_def)

lemma plain_split:
  "extract_request_data Inr example_extract_toplevel_blocks ''select 1'' = Inr (''select 1'', [])"
  by (simp add: extract_request_data_def example_extract_toplevel_blocks_def example_sql_def)

lemma example_macros_text_nonempty: "example_macros_text \<noteq> []"
  by (simp add: example_macros_text_def)

lemma example_get_exec_node:
  "get_exec_node example_env example_store example_task =
     (Inr example_node, [example_macros, example_macros], example_task_after)"
  by (simp add: get_exec_node_def example_env_def example_split parse_macro_overrides_def
      example_macros_text_nonempty example_task_def example_store_def add_new_refs_def view_def
      example_node_def example_macros_def example_task_after_def)

subsection \<open>The request-scoped context and the base manifest\<close>

text \<open>
  The overrides are keyed by \<^verbatim>\<open>unique_id\<close>, and of two parsed macros with the same
  key the later one stays.
\<close>

lemma collect_overrides_last_wins:
  "collect_overrides ns d = d ++ map_of (rev (map (\<lambda>n. (macro_unique_id n, n)) ns))"
proof (induction ns arbitrary: d)
  case Nil
  then show ?case by simp
next
  case (Cons n ns)
  let ?later = "map_of (rev (map (\<lambda>n. (macro_unique_id n, n)) ns))"
  have "collect_overrides (n # ns) d = d(macro_unique_id n \<mapsto> n) ++ ?later"
    by (simp only: collect_overrides.simps Cons.IH)
  also have "\<dots> = d ++ ([macro_unique_id n \<mapsto> n] ++ ?later)"
    by (rule ext) (simp add: map_add_def split: option.split)
  also have "[macro_unique_id n \<mapsto> n] ++ ?later
               = map_of (rev (map (\<lambda>n. (macro_unique_id n, n)) (n # ns)))"
    by simp
  finally show ?case .
qed

text \<open>
  C1, as the claim states it, fails: the claim has the macro collection of the baseline
  graph left unchanged. On the example request the collection of the handler's
  \<^verbatim>\<open>_base_manifest\<close> has no entry for \<^verbatim>\<open>macro.rpc.a\<close> before \<^verbatim>\<open>_get_exec_node\<close> and
  has one after it.
\<close>

theorem get_exec_node_mutates_base_macros:
  "(example_store ! macros (base_manifest example_task)) ''macro.rpc.a'' = None
   \<and> (fst (snd (get_exec_node example_env example_store example_task))
        ! macros (base_manifest example_task)) ''macro.rpc.a''
       = Some \<lparr>macro_unique_id = ''macro.rpc.a'', macro_sql = example_macros_text\<rparr>"
  by (simp add: example_get_exec_node) (simp add: example_task_def example_store_def example_macros_def)

text \<open>
  C1, amended: once the request text is split and its macro blocks are parsed,
  \<^verbatim>\<open>_get_exec_node\<close> updates the macro collection of the handler's \<^verbatim>\<open>_base_manifest\<close>
  in place with the parsed macro definitions, whether or not a later step fails, and
  the handler keeps referring to the same base manifest; with an empty macros text
  nothing is added. When the call succeeds, the macro collection of the request-scoped
  manifest is a new object, distinct from the collection of the base manifest, with the
  same entries.
\<close>

theorem get_exec_node_updates_base_macros_in_place:
  assumes "macros (base_manifest self) < length s"
      and "extract_request_data (decode_sql env) (extract_toplevel_blocks env) (args_sql (args self))
             = Inr (sql, macros_text)"
      and "parse_macro_overrides env macros_text = Inr overrides"
  shows "fst (snd (get_exec_node env s self)) ! macros (base_manifest self)
           = (s ! macros (base_manifest self)) ++ overrides
         \<and> base_manifest (snd (snd (get_exec_node env s self))) = base_manifest self
         \<and> (macros_text = [] \<longrightarrow> overrides = Map.empty)
         \<and> (\<forall>node. fst (get_exec_node env s self) = Inr node \<longrightarrow>
               macros (manifest (snd (snd (get_exec_node env s self)))) = length s
               \<and> macros (manifest (snd (snd (get_exec_node env s self)))) \<noteq> macros (base_manifest self)
               \<and> fst (snd (get_exec_node env s self)) ! length s
                   = (s ! macros (base_manifest self)) ++ overrides)"
  using assms
  by (auto simp: get_exec_node_def parse_macro_overrides_def add_new_refs_def Let_def nth_append
                 map_add_twice
           split: sum.splits option.splits prod.splits if_splits)

theorem get_exec_node_updates_base_macros_in_place_witness:
  "fst (snd (get_exec_node example_env example_store example_task)) ! 0 = example_macros
   \<and> macros (manifest (snd (snd (get_exec_node example_env example_store example_task)))) = 1
   \<and> fst (snd (get_exec_node example_env example_store example_task)) ! 1 = example_macros
   \<and> fst (snd (get_exec_node example_env example_store plain_task)) ! 0 = Map.empty"
proof -
  have wf: "macros (base_manifest example_task) < length example_store"
    by (simp add: example_task_def example_store_def)
  have split1: "extract_request_data (decode_sql example_env) (extract_toplevel_blocks example_env)
                 (args_sql (args example_task)) = Inr (''select {{ a() }}'', example_macros_text)"
    by (simp add: example_env_def example_task_def example_split)
  have ov1: "parse_macro_overrides example_env example_macros_text = Inr example_macros"
    by (simp add: parse_macro_overrides_def example_env_def example_macros_text_nonempty
          example_macros_def)
  have ok1: "fst (get_exec_node example_env example_store example_task) = Inr example_node"
    by (simp add: example_get_exec_node)
  have wf2: "macros (base_manifest plain_task) < length example_store"
    by (simp add: plain_task_def example_task_def example_store_def)
  have split2: "extract_request_data (decode_sql example_env) (extract_toplevel_blocks example_env)
                 (args_sql (args plain_task)) = Inr (''select 1'', [])"
    by (simp add: example_env_def plain_task_def plain_split)
  have ov2: "parse_macro_overrides example_env [] = Inr Map.empty"
    by (simp add: parse_macro_overrides_def)
  have base0: "macros (base_manifest example_task) = 0" "macros (base_manifest plain_task) = 0"
    by (simp_all add: example_task_def plain_task_def)
  have empty0: "example_store ! 0 = Map.empty"
    by (simp add: example_store_def)
  note t1 = get_exec_node_updates_base_macros_in_place [OF wf split1 ov1]
  note t2 = get_exec_node_updates_base_macros_in_place [OF wf2 split2 ov2]
  from t1 t2 ok1 show ?thesis
    by (simp add: base0 empty0 example_store_def)
qed

subsection \<open>Collaborators that the context does not use\<close>

lemma parse_macro_overrides_safe_run [simp]:
  "parse_macro_overrides (env\<lparr>safe_run := f\<rparr>) text = parse_macro_overrides env text"
  by (simp add: parse_macro_overrides_def)

lemma parse_macro_overrides_get_adapter [simp]:
  "parse_macro_overrides (env\<lparr>get_adapter := a\<rparr>) text = parse_macro_overrides env text"
  by (simp add: parse_macro_overrides_def)

lemma parse_macro_overrides_get_runner [simp]:
  "parse_macro_overrides (env\<lparr>get_runner := f\<rparr>) text = parse_macro_overrides env text"
  by (simp add: parse_macro_overrides_def)

lemma get_exec_node_get_runner [simp]:
  "get_exec_node (env\<lparr>get_runner := f\<rparr>) s self = get_exec_node env s self"
  by (simp add: get_exec_node_def Let_def split: sum.split prod.split)

lemma get_exec_node_safe_run [simp]:
  "get_exec_node (env\<lparr>safe_run := f\<rparr>) s self = get_exec_node env s self"
  by (simp add: get_exec_node_def Let_def split: sum.split prod.split)

lemma get_exec_node_get_adapter [simp]:
  "get_exec_node (env\<lparr>get_adapter := a\<rparr>) s self = get_exec_node env s self"
  by (simp add: get_exec_node_def Let_def split: sum.split prod.split)

lemma manifest_runtime_cleanup [simp]: "manifest (runtime_cleanup uids self) = manifest self"
  by (simp add: runtime_cleanup_def)

subsection \<open>Interrupts\<close>

text \<open>
  C2: when the interrupt arrives while the coordinating thread waits for the started
  worker and the adapter can cancel, \<^verbatim>\<open>cancel_open_connections\<close> is called, then the
  worker thread is joined, and the request fails with \<^verbatim>\<open>RPCKilledException(SIGINT)\<close>,
  whatever the worker returned or raised (also when \<^verbatim>\<open>get_runner\<close> raised and the
  thread has ended with that exception); the join waits for the worker, so that the
  call returns only if the worker ends.
\<close>

theorem interrupt_with_cancelable_adapter:
  assumes "is_cancelable (get_adapter env)"
      and "get_exec_node env s self = (Inr node, s1, self1)"
  shows "response (handle_request env cls started ended InterruptRunning s self)
           = (case get_runner env (get_runner_type cls) node of
                Inl exc \<Rightarrow> Some (Inl (RPCKilledException SIGINT))
              | Inr runner \<Rightarrow>
                  if safe_run env True runner (view s1 (manifest self1)) = Blocks
                  then None else Some (Inl (RPCKilledException SIGINT)))
         \<and> (\<exists>worker_evs.
               events (handle_request env cls started ended InterruptRunning s self)
                 = ThreadStart # CancelOpenConnections
                     # map LogCanceledQuery (cancel_open_connections (get_adapter env))
                     @ ThreadJoin # worker_evs)"
  using assms
  by (simp add: handle_request_def except_KeyboardInterrupt_def in_thread_def Let_def
           split: run_outcome.split sum.split)

theorem interrupt_with_cancelable_adapter_witness:
  "response (handle_request blocking_env RemoteRunTask 0 5 InterruptRunning example_store example_task)
     = Some (Inl (RPCKilledException SIGINT))
   \<and> events (handle_request blocking_env RemoteRunTask 0 5 InterruptRunning example_store example_task)
     = [ThreadStart, CancelOpenConnections, LogCanceledQuery ''master'', ThreadJoin,
        LogGotException (ExecutionError ''canceling statement''), ThreadDoneSet]"
proof -
  have c: "is_cancelable (get_adapter blocking_env)"
    by (simp add: blocking_env_def example_env_def example_adapter_def)
  have g: "get_exec_node blocking_env example_store example_task
             = (Inr example_node, [example_macros, example_macros], example_task_after)"
    by (simp add: blocking_env_def example_get_exec_node)
  from interrupt_with_cancelable_adapter [OF c g, of RemoteRunTask 0 5]
  have "response (handle_request blocking_env RemoteRunTask 0 5 InterruptRunning example_store example_task)
     = Some (Inl (RPCKilledException SIGINT))"
    by (simp add: blocking_env_def example_env_def)
  moreover have "events (handle_request blocking_env RemoteRunTask 0 5 InterruptRunning example_store example_task)
     = [ThreadStart, CancelOpenConnections, LogCanceledQuery ''master'', ThreadJoin,
        LogGotException (ExecutionError ''canceling statement''), ThreadDoneSet]"
    by (simp add: handle_request_def g except_KeyboardInterrupt_def in_thread_def)
       (simp add: blocking_env_def example_env_def example_adapter_def)
  ultimately show ?thesis by simp
qed

text \<open>
  C3: when the interrupt arrives while the worker runs and the adapter cannot cancel,
  the coordinating thread writes the debug line about the adapter, does not join the
  worker thread and raises \<^verbatim>\<open>RPCKilledException(SIGINT)\<close>, whatever the worker does
  (also when it never ends).
\<close>

theorem interrupt_with_non_cancelable_adapter:
  assumes "\<not> is_cancelable (get_adapter env)"
      and "get_exec_node env s self = (Inr node, s1, self1)"
  shows "handle_request env cls started ended InterruptRunning s self
           = \<lparr>response = Some (Inl (RPCKilledException SIGINT)),
              events = [ThreadStart, LogNoCancel (adapter_type (get_adapter env))],
              final_store = s1,
              final_task = runtime_cleanup [unique_id node] self1\<rparr>
         \<and> ThreadJoin \<notin> set (events (handle_request env cls started ended InterruptRunning s self))"
  using assms
  by (simp add: handle_request_def except_KeyboardInterrupt_def Let_def)

theorem interrupt_with_non_cancelable_adapter_witness:
  "in_thread uncancelable_env RemoteRunTask True [example_macros, example_macros] example_node
      (runtime_cleanup [unique_id example_node] example_task_after) = None
   \<and> response (handle_request uncancelable_env RemoteRunTask 0 5 InterruptRunning example_store example_task)
       = Some (Inl (RPCKilledException SIGINT))
   \<and> events (handle_request uncancelable_env RemoteRunTask 0 5 InterruptRunning example_store example_task)
       = [ThreadStart, LogNoCancel ''bigquery'']"
proof -
  have c: "\<not> is_cancelable (get_adapter uncancelable_env)"
    by (simp add: uncancelable_env_def)
  have g: "get_exec_node uncancelable_env example_store example_task
             = (Inr example_node, [example_macros, example_macros], example_task_after)"
    by (simp add: uncancelable_env_def example_get_exec_node)
  have b: "in_thread uncancelable_env RemoteRunTask True [example_macros, example_macros] example_node
             (runtime_cleanup [unique_id example_node] example_task_after) = None"
    by (simp add: in_thread_def uncancelable_env_def example_env_def)
  have a: "adapter_type (get_adapter uncancelable_env) = ''bigquery''"
    by (simp add: uncancelable_env_def)
  from interrupt_with_non_cancelable_adapter [OF c g, of RemoteRunTask 0 5] b a
  show ?thesis by simp
qed

subsection \<open>Failures of the worker and of the context\<close>

text \<open>
  C4, as the claim states it, fails: the claim has every exception raised while the
  node is executed caught in the worker, stored and raised again by the coordinating
  thread, and none leaving the worker thread. When \<^verbatim>\<open>safe_run\<close> raises \<^verbatim>\<open>SystemExit\<close>,
  which is no instance of \<^verbatim>\<open>Exception\<close>, the worker sets \<^verbatim>\<open>thread_done\<close> and the
  exception leaves the thread; nothing is stored, and the request is answered with a
  result that holds no node result.
\<close>

theorem worker_system_exit_is_not_stored:
  "in_thread exiting_env RemoteRunTask False [example_macros, example_macros] example_node
      (runtime_cleanup [unique_id example_node] example_task_after)
     = Some ([ThreadDoneSet], runtime_cleanup [unique_id example_node] example_task_after,
             Some (SystemExit 1))
   \<and> response (handle_request exiting_env RemoteRunTask 0 5 NoInterrupt example_store example_task)
     = Some (Inr \<lparr>results = [], elapsed_time = 5, generated_at = 5\<rparr>)
   \<and> raise_next_tick (final_task
        (handle_request exiting_env RemoteRunTask 0 5 NoInterrupt example_store example_task))
     = None"
proof -
  have g: "get_exec_node exiting_env example_store example_task
             = (Inr example_node, [example_macros, example_macros], example_task_after)"
    by (simp add: exiting_env_def example_get_exec_node)
  have w: "in_thread exiting_env RemoteRunTask False [example_macros, example_macros] example_node
             (runtime_cleanup [unique_id example_node] example_task_after)
           = Some ([ThreadDoneSet], runtime_cleanup [unique_id example_node] example_task_after,
                   Some (SystemExit 1))"
    by (simp add: in_thread_def exiting_env_def example_env_def)
  show ?thesis
    by (simp add: handle_request_def g w raise_set_error_def)
       (simp add: runtime_cleanup_def get_result_def)
qed

text \<open>
  C4, amended: once \<^verbatim>\<open>get_runner\<close> has returned the runner, an exception that
  \<^verbatim>\<open>safe_run\<close> raises and that is an instance of \<^verbatim>\<open>Exception\<close> is caught in the worker,
  written to the debug log and stored in \<^verbatim>\<open>_raise_next_tick\<close>; the worker then sets
  \<^verbatim>\<open>thread_done\<close> and ends with no exception leaving the thread, and with no
  interrupt the coordinating thread raises the stored exception after the wait and
  builds no result. An exception of \<^verbatim>\<open>safe_run\<close> that is no instance of
  \<^verbatim>\<open>Exception\<close> is neither logged nor stored: the worker sets \<^verbatim>\<open>thread_done\<close> all the
  same, and the exception leaves the thread.
\<close>

theorem worker_exception_is_stored_and_reraised:
  assumes "get_exec_node env s self = (Inr node, s1, self1)"
      and "get_runner env (get_runner_type cls) node = Inr runner"
      and "safe_run env False runner (view s1 (manifest self1)) = Raises exc"
  shows "(is_Exception exc \<longrightarrow>
            in_thread env cls False s1 node (runtime_cleanup [unique_id node] self1)
              = Some ([LogGotException exc, ThreadDoneSet],
                      (runtime_cleanup [unique_id node] self1)\<lparr>raise_next_tick := Some exc\<rparr>,
                      None)
            \<and> handle_request env cls started ended NoInterrupt s self
              = \<lparr>response = Some (Inl exc),
                 events = [ThreadStart, LogGotException exc, ThreadDoneSet],
                 final_store = s1,
                 final_task = (runtime_cleanup [unique_id node] self1)\<lparr>raise_next_tick := Some exc\<rparr>\<rparr>)
         \<and> (\<not> is_Exception exc \<longrightarrow>
              in_thread env cls False s1 node (runtime_cleanup [unique_id node] self1)
                = Some ([ThreadDoneSet], runtime_cleanup [unique_id node] self1, Some exc))"
  using assms
  by (simp add: handle_request_def in_thread_def raise_set_error_def Let_def)

theorem worker_exception_is_stored_and_reraised_witness:
  "response (handle_request raising_env RemoteRunTask 0 5 NoInterrupt example_store example_task)
     = Some (Inl (ExecutionError ''division by zero''))
   \<and> events (handle_request raising_env RemoteRunTask 0 5 NoInterrupt example_store example_task)
     = [ThreadStart, LogGotException (ExecutionError ''division by zero''), ThreadDoneSet]
   \<and> raise_next_tick (final_task
        (handle_request raising_env RemoteRunTask 0 5 NoInterrupt example_store example_task))
     = Some (ExecutionError ''division by zero'')
   \<and> in_thread exiting_env RemoteRunTask False [example_macros, example_macros] example_node
        (runtime_cleanup [unique_id example_node] example_task_after)
     = Some ([ThreadDoneSet], runtime_cleanup [unique_id example_node] example_task_after,
             Some (SystemExit 1))"
proof -
  have g: "get_exec_node raising_env example_store example_task
             = (Inr example_node, [example_macros, example_macros], example_task_after)"
    by (simp add: raising_env_def example_get_exec_node)
  have n: "get_runner raising_env (get_runner_type RemoteRunTask) example_node
             = Inr \<lparr>runner_type = RPCExecuteRunner, runner_node = example_node\<rparr>"
    by (simp add: raising_env_def example_env_def)
  have r: "safe_run raising_env False x v = Raises (ExecutionError ''division by zero'')" for x v
    by (simp add: raising_env_def)
  have g': "get_exec_node exiting_env example_store example_task
             = (Inr example_node, [example_macros, example_macros], example_task_after)"
    by (simp add: exiting_env_def example_get_exec_node)
  have n': "get_runner exiting_env (get_runner_type RemoteRunTask) example_node
             = Inr \<lparr>runner_type = RPCExecuteRunner, runner_node = example_node\<rparr>"
    by (simp add: exiting_env_def example_env_def)
  have r': "safe_run exiting_env False x v = Raises (SystemExit 1)" for x v
    by (simp add: exiting_env_def)
  from worker_exception_is_stored_and_reraised [OF g n r, of 0 5]
       worker_exception_is_stored_and_reraised [OF g' n' r', of 0 5]
  show ?thesis by simp
qed

text \<open>
  \<^verbatim>\<open>get_runner\<close> is called before the \<^verbatim>\<open>try\<close>: when it raises, the exception leaves
  the worker thread, \<^verbatim>\<open>thread_done\<close> is never set, and with no interrupt
  \<^verbatim>\<open>handle_request\<close> never returns.
\<close>

lemma get_runner_failure_leaves_request_waiting:
  assumes "get_exec_node env s self = (Inr node, s1, self1)"
      and "get_runner env (get_runner_type cls) node = Inl exc"
  shows "in_thread env cls cancelled s1 node (runtime_cleanup [unique_id node] self1)
           = Some ([], runtime_cleanup [unique_id node] self1, Some exc)
         \<and> handle_request env cls started ended NoInterrupt s self
           = \<lparr>response = None, events = [ThreadStart], final_store = s1,
              final_task = runtime_cleanup [unique_id node] self1\<rparr>"
  using assms
  by (simp add: handle_request_def in_thread_def Let_def)

lemma no_runner_request_never_returns:
  "response (handle_request no_runner_env RemoteRunTask 0 5 NoInterrupt example_store example_task)
     = None"
proof -
  have g: "get_exec_node no_runner_env example_store example_task
             = (Inr example_node, [example_macros, example_macros], example_task_after)"
    by (simp add: no_runner_env_def example_get_exec_node)
  have n: "get_runner no_runner_env (get_runner_type RemoteRunTask) example_node
             = Inl (RuntimeError ''no adapter for this profile'')"
    by (simp add: no_runner_env_def)
  from get_runner_failure_leaves_request_waiting
         [OF g n, where started = 0 and ended = 5 and cancelled = False]
  show ?thesis by simp
qed

lemma no_start_in_interrupt_before_thread:
  "ThreadStart \<notin> set (events (except_KeyboardInterrupt a NoThread None [] s self))"
  by (auto simp: except_KeyboardInterrupt_def)

text \<open>
  C7: when \<^verbatim>\<open>_get_exec_node\<close> raises (a parse error of the statement or of the macros,
  an unresolved reference), \<^verbatim>\<open>handle_request\<close> raises the same exception and no worker
  thread is started, wherever an interrupt may fall.
\<close>

theorem context_failure_aborts_before_worker:
  assumes "get_exec_node env s self = (Inl e, s1, self1)"
  shows "handle_request env cls started ended NoInterrupt s self
           = \<lparr>response = Some (Inl e), events = [], final_store = s1, final_task = self1\<rparr>
         \<and> ThreadStart \<notin> set (events (handle_request env cls started ended intr s self))"
  using assms
  by (simp add: handle_request_def no_start_in_interrupt_before_thread)

lemma unresolved_get_exec_node:
  "get_exec_node unresolved_env example_store example_task
     = (Inl (ValidationError ''depends on a node which was not found''), [example_macros], example_task)"
  by (simp add: get_exec_node_def unresolved_env_def example_env_def example_split parse_macro_overrides_def
      example_macros_text_nonempty example_task_def example_store_def add_new_refs_def view_def
      example_macros_def Let_def)

theorem context_failure_aborts_before_worker_witness:
  "response (handle_request unresolved_env RemoteCompileTask 0 5 NoInterrupt example_store example_task)
     = Some (Inl (ValidationError ''depends on a node which was not found''))
   \<and> events (handle_request unresolved_env RemoteCompileTask 0 5 NoInterrupt example_store example_task)
     = []"
  using context_failure_aborts_before_worker [OF unresolved_get_exec_node, of RemoteCompileTask 0 5]
  by simp

text \<open>
  The failures of the parsers and of the reference resolution are failures of
  \<^verbatim>\<open>_get_exec_node\<close>.
\<close>

lemma macro_parse_error_fails_context:
  assumes "extract_request_data (decode_sql env) (extract_toplevel_blocks env) (args_sql (args self))
             = Inr (sql, macros_text)"
      and "macros_text \<noteq> []"
      and "macro_parse_remote env macros_text = Inl e"
  shows "get_exec_node env s self = (Inl e, s, self)"
  using assms by (simp add: get_exec_node_def parse_macro_overrides_def)

lemma statement_parse_error_fails_context:
  assumes "extract_request_data (decode_sql env) (extract_toplevel_blocks env) (args_sql (args self))
             = Inr (sql, macros_text)"
      and "parse_macro_overrides env macros_text = Inr overrides"
      and "call_parse_remote env
             (view (s[macros (base_manifest self) := s ! macros (base_manifest self) ++ overrides])
                   (base_manifest self))
             sql (args_name (args self)) = Inl e"
  shows "fst (get_exec_node env s self) = Inl e"
  using assms by (simp add: get_exec_node_def Let_def)

lemma resolution_error_fails_context:
  assumes "extract_request_data (decode_sql env) (extract_toplevel_blocks env) (args_sql (args self))
             = Inr (sql, macros_text)"
      and "parse_macro_overrides env macros_text = Inr overrides"
      and "call_parse_remote env
             (view (s[macros (base_manifest self) := s ! macros (base_manifest self) ++ overrides])
                   (base_manifest self))
             sql (args_name (args self)) = Inr node"
      and "\<And>v. resolve_refs env v node = Some e"
  shows "fst (get_exec_node env s self) = Inl e"
  using assms by (simp add: get_exec_node_def Let_def add_new_refs_def)

subsection \<open>The worker thread on the path without interrupt\<close>

lemma example_handle_request:
  "handle_request example_env RemoteRunTask 0 5 NoInterrupt example_store example_task
     = \<lparr>response = Some (Inr \<lparr>results = [example_result], elapsed_time = 5, generated_at = 5\<rparr>),
        events = [ThreadStart, ThreadDoneSet],
        final_store = [example_macros, example_macros],
        final_task = (runtime_cleanup [''rpc.q1''] example_task_after)\<lparr>node_results := [example_result]\<rparr>\<rparr>"
  by (simp add: handle_request_def example_get_exec_node in_thread_def Let_def)
     (simp add: example_env_def example_node_def example_result_def runtime_cleanup_def
        raise_set_error_def get_result_def example_task_after_def)

text \<open>
  C9, as the claim states it, fails: the claim has the worker joined before a response
  is returned on the success path. The example request is answered with its result
  after the events \<open>ThreadStart\<close> and \<open>ThreadDoneSet\<close>, and \<^verbatim>\<open>thread.join()\<close> is not
  among them: the coordinating thread waits for the event \<^verbatim>\<open>thread_done\<close>, not for
  the thread.
\<close>

theorem response_without_join:
  "response (handle_request example_env RemoteRunTask 0 5 NoInterrupt example_store example_task)
     = Some (Inr \<lparr>results = [example_result], elapsed_time = 5, generated_at = 5\<rparr>)
   \<and> events (handle_request example_env RemoteRunTask 0 5 NoInterrupt example_store example_task)
     = [ThreadStart, ThreadDoneSet]
   \<and> ThreadJoin \<notin> set (events
        (handle_request example_env RemoteRunTask 0 5 NoInterrupt example_store example_task))"
  by (simp add: example_handle_request)

lemma no_start_in_canceled_queries:
  "filter (\<lambda>e. e = ThreadStart) (map LogCanceledQuery conns) = []"
  by (induction conns) simp_all

text \<open>
  C9, amended: a request starts at most one worker thread; it starts exactly one when
  the context is built and the interrupt, if there is one, arrives while the worker
  runs, and none when building the context fails; and when a response is returned, no
  interrupt was delivered and the events are the start of the worker followed by the
  worker setting \<^verbatim>\<open>thread_done\<close>.
\<close>

theorem at_most_one_worker_and_response_after_done:
  "length (filter (\<lambda>e. e = ThreadStart) (events (handle_request env cls started ended intr s self))) \<le> 1
   \<and> (\<forall>node. fst (get_exec_node env s self) = Inr node \<and> (intr = NoInterrupt \<or> intr = InterruptRunning)
         \<longrightarrow> length (filter (\<lambda>e. e = ThreadStart)
                      (events (handle_request env cls started ended intr s self))) = 1)
   \<and> (\<forall>r. response (handle_request env cls started ended intr s self) = Some (Inr r)
         \<longrightarrow> intr = NoInterrupt
             \<and> events (handle_request env cls started ended intr s self) = [ThreadStart, ThreadDoneSet])
   \<and> (\<forall>e. fst (get_exec_node env s self) = Inl e
         \<longrightarrow> filter (\<lambda>e. e = ThreadStart)
               (events (handle_request env cls started ended intr s self)) = [])"
proof -
  obtain res s1 self1 where g: "get_exec_node env s self = (res, s1, self1)"
    by (cases "get_exec_node env s self") auto
  show ?thesis
  proof (cases res)
    case (Inl e)
    with g show ?thesis
      by (auto simp: handle_request_def except_KeyboardInterrupt_def Let_def
            no_start_in_canceled_queries)
  next
    case (Inr node)
    with g show ?thesis
      by (cases intr)
         (auto simp: handle_request_def except_KeyboardInterrupt_def Let_def
               no_start_in_canceled_queries raise_set_error_def in_thread_def
             split: option.splits sum.splits run_outcome.splits thread_var.splits if_splits)
  qed
qed

theorem at_most_one_worker_and_response_after_done_witness:
  "length (filter (\<lambda>e. e = ThreadStart)
     (events (handle_request example_env RemoteRunTask 0 5 NoInterrupt example_store example_task))) = 1
   \<and> events (handle_request example_env RemoteRunTask 0 5 NoInterrupt example_store example_task)
     = [ThreadStart, ThreadDoneSet]
   \<and> filter (\<lambda>e. e = ThreadStart)
       (events (handle_request unresolved_env RemoteRunTask 0 5 InterruptRunning example_store
                  example_task)) = []"
proof -
  have u: "fst (get_exec_node unresolved_env example_store example_task)
             = Inl (ValidationError ''depends on a node which was not found'')"
    by (simp add: unresolved_get_exec_node)
  have g: "fst (get_exec_node example_env example_store example_task) = Inr example_node"
    by (simp add: example_get_exec_node)
  have r: "response (handle_request example_env RemoteRunTask 0 5 NoInterrupt example_store example_task)
             = Some (Inr \<lparr>results = [example_result], elapsed_time = 5, generated_at = 5\<rparr>)"
    by (simp add: example_handle_request)
  from at_most_one_worker_and_response_after_done
         [of example_env RemoteRunTask 0 5 NoInterrupt example_store example_task] g r
       at_most_one_worker_and_response_after_done
         [of unresolved_env RemoteRunTask 0 5 InterruptRunning example_store example_task] u
  show ?thesis by simp
qed

subsection \<open>The \<^verbatim>\<open>macros\<close> parameter\<close>

lemma get_exec_node_ignores_args_macros:
  "get_exec_node env s (self\<lparr>args := (args self)\<lparr>args_macros := m\<rparr>\<rparr>)
     = (case get_exec_node env s self of
          (r, s', self') \<Rightarrow> (r, s', self'\<lparr>args := (args self')\<lparr>args_macros := m\<rparr>\<rparr>))"
  by (simp add: get_exec_node_def Let_def split: sum.split prod.split)

lemma except_KeyboardInterrupt_args:
  "except_KeyboardInterrupt a th (map_option (\<lambda>(evs, t, esc). (evs, t\<lparr>args := x\<rparr>, esc)) w) evs s
       (self\<lparr>args := x\<rparr>)
     = (except_KeyboardInterrupt a th w evs s self)
         \<lparr>final_task := (final_task (except_KeyboardInterrupt a th w evs s self))\<lparr>args := x\<rparr>\<rparr>"
  by (simp add: except_KeyboardInterrupt_def Let_def split: thread_var.split option.split prod.split)

lemma in_thread_args:
  "in_thread env cls c s node (self\<lparr>args := x\<rparr>)
     = map_option (\<lambda>(evs, t, esc). (evs, t\<lparr>args := x\<rparr>, esc)) (in_thread env cls c s node self)"
  by (simp add: in_thread_def Let_def split: run_outcome.split sum.split)

lemma runtime_cleanup_args:
  "runtime_cleanup uids (self\<lparr>args := x\<rparr>) = (runtime_cleanup uids self)\<lparr>args := x\<rparr>"
  by (simp add: runtime_cleanup_def)

lemma args_runtime_cleanup [simp]: "args (runtime_cleanup uids self) = args self"
  by (simp add: runtime_cleanup_def)

lemma args_get_exec_node: "args (snd (snd (get_exec_node env s self))) = args self"
  by (simp add: get_exec_node_def Let_def split: sum.split prod.split)

lemma handle_request_ignores_args_macros:
  "handle_request env cls started ended intr s (self\<lparr>args := (args self)\<lparr>args_macros := m\<rparr>\<rparr>)
     = (handle_request env cls started ended intr s self)
         \<lparr>final_task := (final_task (handle_request env cls started ended intr s self))
                          \<lparr>args := (args self)\<lparr>args_macros := m\<rparr>\<rparr>\<rparr>"
proof -
  obtain res s1 self1 where g: "get_exec_node env s self = (res, s1, self1)"
    by (cases "get_exec_node env s self") auto
  have a: "args self1 = args self"
    using args_get_exec_node [of env s self] g by simp
  note ki = except_KeyboardInterrupt_args [where w = None, simplified] except_KeyboardInterrupt_args
  show ?thesis
  proof (cases res)
    case (Inl e)
    with g a show ?thesis
      by (simp add: handle_request_def get_exec_node_ignores_args_macros ki)
  next
    case (Inr node)
    with g a show ?thesis
      by (cases intr)
         (simp_all add: handle_request_def get_exec_node_ignores_args_macros ki Let_def
            runtime_cleanup_args in_thread_args raise_set_error_def
            split: option.split prod.split)
  qed
qed

text \<open>
  C10: two requests that differ in the \<^verbatim>\<open>macros\<close> parameter only have the same
  response, the same events, the same store, the same request-scoped manifest and the
  same parsed node: \<^verbatim>\<open>set_args\<close> stores the parameter in \<^verbatim>\<open>args.macros\<close>, and nothing
  reads it but the assignment that \<^verbatim>\<open>_get_exec_node\<close> overwrites at once.
\<close>

theorem macros_parameter_is_ignored:
  "response (handle_request env cls started ended intr s (set_args (params\<lparr>param_macros := m1\<rparr>) self))
     = response (handle_request env cls started ended intr s (set_args (params\<lparr>param_macros := m2\<rparr>) self))
   \<and> events (handle_request env cls started ended intr s (set_args (params\<lparr>param_macros := m1\<rparr>) self))
     = events (handle_request env cls started ended intr s (set_args (params\<lparr>param_macros := m2\<rparr>) self))
   \<and> final_store (handle_request env cls started ended intr s (set_args (params\<lparr>param_macros := m1\<rparr>) self))
     = final_store (handle_request env cls started ended intr s (set_args (params\<lparr>param_macros := m2\<rparr>) self))
   \<and> manifest (final_task
        (handle_request env cls started ended intr s (set_args (params\<lparr>param_macros := m1\<rparr>) self)))
     = manifest (final_task
        (handle_request env cls started ended intr s (set_args (params\<lparr>param_macros := m2\<rparr>) self)))
   \<and> fst (get_exec_node env s (set_args (params\<lparr>param_macros := m1\<rparr>) self))
     = fst (get_exec_node env s (set_args (params\<lparr>param_macros := m2\<rparr>) self))"
proof -
  define base where "base = set_args (params\<lparr>param_macros := None\<rparr>) self"
  have eq: "set_args (params\<lparr>param_macros := m\<rparr>) self = base\<lparr>args := (args base)\<lparr>args_macros := m\<rparr>\<rparr>" for m
    by (simp add: base_def set_args_def)
  show ?thesis
    unfolding eq handle_request_ignores_args_macros get_exec_node_ignores_args_macros
    by (simp split: prod.split)
qed

subsection \<open>The registry and the \<^verbatim>\<open>cli_args\<close> handler\<close>

lemma find_candidate_None:
  "find_candidate cands name = None \<longleftrightarrow> (\<forall>c \<in> set cands. METHOD_NAME c \<noteq> name)"
  by (induction cands) auto

lemma find_candidate_Some:
  "find_candidate cands name = Some c \<Longrightarrow> c \<in> set cands \<and> METHOD_NAME c = name"
  by (induction cands) (auto split: if_splits)

lemma find_candidate_distinct:
  "distinct (map METHOD_NAME cands) \<Longrightarrow> c \<in> set cands \<Longrightarrow> METHOD_NAME c = name
     \<Longrightarrow> find_candidate cands name = Some c"
  by (induction cands) (auto simp: image_iff)

text \<open>
  C6: when no candidate's \<^verbatim>\<open>METHOD_NAME\<close> equals the method name,
  \<^verbatim>\<open>get_rpc_task_cls\<close> raises \<^verbatim>\<open>InternalException\<close> (with the message of the source),
  and not a validation error; when some candidate's does, it returns a candidate with
  that \<^verbatim>\<open>METHOD_NAME\<close>, and where the names of the candidates are distinct it returns
  the one candidate with that name.
\<close>

theorem get_rpc_task_cls_resolution:
  "((\<forall>c \<in> set cands. METHOD_NAME c \<noteq> rpc_method parsed) \<longrightarrow>
      get_rpc_task_cls cands parsed
        = Inl (InternalException
                 (''No matching handler found for rpc method '' @ format_opt (rpc_method parsed)
                    @ '' (which='' @ format_opt (which parsed) @ '')''))
      \<and> (\<forall>msg. get_rpc_task_cls cands parsed \<noteq> Inl (ValidationError msg)))
   \<and> ((\<exists>c \<in> set cands. METHOD_NAME c = rpc_method parsed) \<longrightarrow>
        (\<exists>c. get_rpc_task_cls cands parsed = Inr c \<and> c \<in> set cands
              \<and> METHOD_NAME c = rpc_method parsed))
   \<and> (\<forall>c. distinct (map METHOD_NAME cands) \<and> c \<in> set cands \<and> METHOD_NAME c = rpc_method parsed \<longrightarrow>
          get_rpc_task_cls cands parsed = Inr c)"
proof (intro conjI impI allI)
  assume "\<forall>c \<in> set cands. METHOD_NAME c \<noteq> rpc_method parsed"
  then have n: "find_candidate cands (rpc_method parsed) = None"
    by (simp add: find_candidate_None)
  then show "get_rpc_task_cls cands parsed
        = Inl (InternalException
                 (''No matching handler found for rpc method '' @ format_opt (rpc_method parsed)
                    @ '' (which='' @ format_opt (which parsed) @ '')''))"
    by (simp add: get_rpc_task_cls_def)
  fix msg
  from n show "get_rpc_task_cls cands parsed \<noteq> Inl (ValidationError msg)"
    by (simp add: get_rpc_task_cls_def)
next
  assume "\<exists>c \<in> set cands. METHOD_NAME c = rpc_method parsed"
  then have "find_candidate cands (rpc_method parsed) \<noteq> None"
    by (simp add: find_candidate_None)
  then obtain c where c: "find_candidate cands (rpc_method parsed) = Some c"
    by auto
  with find_candidate_Some [OF c]
  show "\<exists>c. get_rpc_task_cls cands parsed = Inr c \<and> c \<in> set cands
              \<and> METHOD_NAME c = rpc_method parsed"
    by (simp add: get_rpc_task_cls_def)
next
  fix c
  assume "distinct (map METHOD_NAME cands) \<and> c \<in> set cands \<and> METHOD_NAME c = rpc_method parsed"
  then have "find_candidate cands (rpc_method parsed) = Some c"
    by (simp add: find_candidate_distinct)
  then show "get_rpc_task_cls cands parsed = Inr c"
    by (simp add: get_rpc_task_cls_def)
qed

lemma distinct_module_subclasses: "distinct (map METHOD_NAME module_subclasses)"
  by (simp add: module_subclasses_def)

theorem get_rpc_task_cls_resolution_witness:
  "get_rpc_task_cls module_subclasses
     \<lparr>rpc_method = Some ''run'', which = Some ''run'', models = Some [''my_model''], exclude = None\<rparr>
     = Inr RemoteRunProjectTask
   \<and> get_rpc_task_cls module_subclasses
     \<lparr>rpc_method = Some ''bogus'', which = Some ''bogus'', models = None, exclude = None\<rparr>
     = Inl (InternalException ''No matching handler found for rpc method bogus (which=bogus)'')"
proof -
  have r: "RemoteRunProjectTask \<in> set module_subclasses"
    by (simp add: module_subclasses_def)
  have b: "\<forall>c \<in> set module_subclasses. METHOD_NAME c \<noteq> Some ''bogus''"
    by (simp add: module_subclasses_def)
  from get_rpc_task_cls_resolution [of module_subclasses
         "\<lparr>rpc_method = Some ''run'', which = Some ''run'', models = Some [''my_model''], exclude = None\<rparr>"]
       distinct_module_subclasses r
  have 1: "get_rpc_task_cls module_subclasses
     \<lparr>rpc_method = Some ''run'', which = Some ''run'', models = Some [''my_model''], exclude = None\<rparr>
     = Inr RemoteRunProjectTask"
    by simp
  from get_rpc_task_cls_resolution [of module_subclasses
         "\<lparr>rpc_method = Some ''bogus'', which = Some ''bogus'', models = None, exclude = None\<rparr>"] b
  have 2: "get_rpc_task_cls module_subclasses
     \<lparr>rpc_method = Some ''bogus'', which = Some ''bogus'', models = None, exclude = None\<rparr>
     = Inl (InternalException ''No matching handler found for rpc method bogus (which=bogus)'')"
    by simp
  from 1 2 show ?thesis by simp
qed

text \<open>
  C8: when the command line is split into tokens and the tokens parse to a namespace
  whose \<^verbatim>\<open>rpc_method\<close> is the \<^verbatim>\<open>METHOD_NAME\<close> of a registered handler class (the
  names being distinct), \<^verbatim>\<open>set_args\<close> stores that namespace, \<^verbatim>\<open>get_rpc_task_cls\<close>
  returns that class, and \<^verbatim>\<open>handle_request\<close> returns what the \<^verbatim>\<open>handle_request\<close> of
  that class, constructed with the namespace, the configuration and the manifest,
  returns. The command line \<^verbatim>\<open>run --models my_model\<close>, parsed to the method
  \<^verbatim>\<open>run\<close> with the models \<^verbatim>\<open>my_model\<close>, goes to \<open>RemoteRunProjectTask\<close> with these
  models.
\<close>

theorem cli_args_delegates:
  assumes "shlex_split (param_cli params) = Inr tokens"
      and "parse_args tokens = Inr parsed"
      and "distinct (map METHOD_NAME subclasses)"
      and "cls \<in> set subclasses"
      and "METHOD_NAME cls = rpc_method parsed"
  shows "cli_set_args shlex_split parse_args params = Inr parsed
         \<and> get_rpc_task_cls subclasses parsed = Inr cls
         \<and> cli_handle_request subclasses construct_and_handle parsed config m
             = construct_and_handle cls parsed config m"
  using assms
  by (simp add: cli_set_args_def cli_handle_request_def get_rpc_task_cls_def find_candidate_distinct)

theorem cli_args_delegates_witness:
  "cli_set_args example_shlex_split example_parse_args \<lparr>param_cli = ''run --models my_model''\<rparr>
     = Inr \<lparr>rpc_method = Some ''run'', which = Some ''run'', models = Some [''my_model''], exclude = None\<rparr>
   \<and> cli_handle_request module_subclasses (\<lambda>cls parsed config m. Inr (cls, models parsed))
        \<lparr>rpc_method = Some ''run'', which = Some ''run'', models = Some [''my_model''], exclude = None\<rparr>
        () ()
     = (Inr (RemoteRunProjectTask, Some [''my_model'']) :: exn + handler_cls \<times> string list option)"
proof -
  have s: "example_shlex_split (param_cli \<lparr>param_cli = ''run --models my_model''\<rparr>)
             = Inr [''run'', ''--models'', ''my_model'']"
    by (simp add: example_shlex_split_def)
  have p: "example_parse_args [''run'', ''--models'', ''my_model'']
             = Inr \<lparr>rpc_method = Some ''run'', which = Some ''run'',
                    models = Some [''my_model''], exclude = None\<rparr>"
    by (simp add: example_parse_args_def)
  have r: "RemoteRunProjectTask \<in> set module_subclasses"
    by (simp add: module_subclasses_def)
  have n: "METHOD_NAME RemoteRunProjectTask
             = rpc_method \<lparr>rpc_method = Some ''run'', which = Some ''run'',
                            models = Some [''my_model''], exclude = None\<rparr>"
    by simp
  from cli_args_delegates
         [where shlex_split = example_shlex_split and parse_args = example_parse_args
            and params = "\<lparr>param_cli = ''run --models my_model''\<rparr>"
            and construct_and_handle = "\<lambda>cls parsed config m. Inr (cls, models parsed)"
            and config = "()" and m = "()",
          OF s p distinct_module_subclasses r n]
  show ?thesis by simp
qed

end
